theory Spec2Isabelle
  imports Main "HOL-Library.Word"
begin

section \<open>Strings and the two regular expressions of the deployment-process resource\<close>

text \<open>
  Go strings are byte sequences; they are modelled as \<open>string\<close> (a list of bytes).
  The classes \<open>\d\<close> and \<open>\w\<close> of Go's regexp package are ASCII-only:
  \<open>[0-9]\<close> and \<open>[0-9A-Za-z_]\<close>.
\<close>

definition isDigit :: "char \<Rightarrow> bool" where
  "isDigit c = (c \<in> set ''0123456789'')"

definition isWord :: "char \<Rightarrow> bool" where
  "isWord c =
     (c \<in> set ''0123456789ABCDEFGHIJKLMNOPQRSTUVWXYZabcdefghijklmnopqrstuvwxyz_'')"

text \<open>
  A match of \<open>\d+-\w+\<close> that starts at the head of the string. Both repetitions are
  greedy. A shorter run of digits is followed by a digit and never by the hyphen, so the
  only candidate is the longest run of digits; the run of word bytes is the longest one.
\<close>

definition matchGitRefAt :: "string \<Rightarrow> string option" where
  "matchGitRefAt s =
     (let ds = takeWhile isDigit s; rest = dropWhile isDigit s
      in case rest of
           [] \<Rightarrow> None
         | c # after \<Rightarrow>
             (let ws = takeWhile isWord after
              in if ds \<noteq> [] \<and> c = CHR ''-'' \<and> ws \<noteq> []
                 then Some (ds @ c # ws) else None))"

text \<open>\<open>regexp.FindString\<close> for \<open>\d+-\w+\<close>: the leftmost match, or the empty string.\<close>

fun findGitRefPattern :: "string \<Rightarrow> string" where
  "findGitRefPattern [] = []"
| "findGitRefPattern (c # cs) =
     (case matchGitRefAt (c # cs) of
        Some m \<Rightarrow> m
      | None \<Rightarrow> findGitRefPattern cs)"

text \<open>A match of \<open>Projects-\d+\<close> that starts at the head of the string.\<close>

definition matchProjectAt :: "string \<Rightarrow> string option" where
  "matchProjectAt s =
     (if take 9 s = ''Projects-'' \<and> takeWhile isDigit (drop 9 s) \<noteq> []
      then Some (''Projects-'' @ takeWhile isDigit (drop 9 s)) else None)"

text \<open>\<open>regexp.FindString\<close> for \<open>Projects-\d+\<close>.\<close>

fun findProjectPattern :: "string \<Rightarrow> string" where
  "findProjectPattern [] = []"
| "findProjectPattern (c # cs) =
     (case matchProjectAt (c # cs) of
        Some m \<Rightarrow> m
      | None \<Rightarrow> findProjectPattern cs)"

text \<open>
  \<open>strings.SplitAfter(s, sep)\<close> for a separator of one byte: the string is cut after
  every separator, the separator stays at the end of its piece, and the result has one
  piece more than the string has separators (the empty string gives one empty piece).
\<close>

fun SplitAfter :: "string \<Rightarrow> char \<Rightarrow> string list" where
  "SplitAfter [] sep = [[]]"
| "SplitAfter (c # cs) sep =
     (if c = sep then [c] # SplitAfter cs sep
      else (case SplitAfter cs sep of
              [] \<Rightarrow> [[c]]
            | p # ps \<Rightarrow> (c # p) # ps))"

text \<open>
  \<^verbatim>\<open>
  func getGitRef(d *schema.ResourceData) string {
      r, _ := regexp.Compile(`\d+-\w+`)
      parts := strings.SplitAfter(r.FindString(d.Id()), "-")
      if len(parts) > 2 {
          return parts[1]
      }
      return ""
  }
  \<close>
  The function reads the identifier only; the model takes the identifier.
\<close>

definition getGitRef :: "string \<Rightarrow> string" where
  "getGitRef ident =
     (let parts = SplitAfter (findGitRefPattern ident) CHR ''-''
      in if length parts > 2 then parts ! 1 else [])"

section \<open>Errors and diagnostics\<close>

text \<open>
  A Go \<open>error\<close> is either an error of the API client, with the HTTP status code and a
  message, or one built by \<open>fmt.Errorf\<close>, with its message.
\<close>

datatype error = APIError nat string | Errorf string

fun error_text :: "error \<Rightarrow> string" where
  "error_text (APIError code msg) = msg"
| "error_text (Errorf msg) = msg"

text \<open>
  \<open>diag.Diagnostics\<close> is a list of diagnostics; \<open>nil\<close>, the empty list, is success.
  Both \<open>diag.FromErr\<close> and \<open>diag.Errorf\<close> give one diagnostic of severity Error.
\<close>

datatype severity = Error | Warning

record diagnostic =
  Severity :: severity
  Summary :: string

type_synonym diagnostics = "diagnostic list"

definition diag_FromErr :: "error \<Rightarrow> diagnostics" where
  "diag_FromErr err = [\<lparr>Severity = Error, Summary = error_text err\<rparr>]"

definition diag_Errorf :: "string \<Rightarrow> diagnostics" where
  "diag_Errorf msg = [\<lparr>Severity = Error, Summary = msg\<rparr>]"

section \<open>The deployment-process resource\<close>

subsection \<open>Data\<close>

text \<open>The content of a deployment step is opaque to the handlers.\<close>

type_synonym deployment_step = string

text \<open>\<open>deployments.DeploymentProcess\<close>, with the fields the handlers read or write.\<close>

record DeploymentProcess =
  ID :: string
  Links :: "string \<rightharpoonup> string"
  Version :: "32 word"
  ProjectID :: string
  Branch :: string
  LastSnapshotID :: string
  SpaceID :: string
  Steps :: "deployment_step list"

text \<open>The zero value of the struct, as the composite literal of Go leaves it.\<close>

definition zero_DeploymentProcess :: DeploymentProcess where
  "zero_DeploymentProcess =
     \<lparr>ID = [], Links = Map.empty, Version = 0, ProjectID = [], Branch = [],
      LastSnapshotID = [], SpaceID = [], Steps = []\<rparr>"

text \<open>
  \<open>project.PersistenceSettings\<close> is \<open>nil\<close> or carries a type; only the type is read.
\<close>

datatype PersistenceSettingsType = Database | VersionControlled

record Project =
  project_ID :: string
  DeploymentProcessID :: string
  PersistenceSettings :: "PersistenceSettingsType option"

text \<open>
  \<^verbatim>\<open>project.PersistenceSettings != nil &&
  project.PersistenceSettings.Type() == projects.PersistenceSettingsTypeVersionControlled\<close>
\<close>

definition isVersionControlled :: "Project \<Rightarrow> bool" where
  "isVersionControlled project =
     (case PersistenceSettings project of
        None \<Rightarrow> False
      | Some t \<Rightarrow> t = VersionControlled)"

text \<open>
  \<open>schema.ResourceData\<close> of a deployment process: the identifier and the fields of the
  schema. \<open>d.Id()\<close> reads \<open>dp_Id\<close> and \<open>d.SetId\<close> writes it.
\<close>

record dp_data =
  dp_Id :: string
  dp_branch :: string
  dp_last_snapshot_id :: string
  dp_project_id :: string
  dp_space_id :: string
  dp_step :: "deployment_step list"
  dp_version :: int

subsection \<open>Collaborators\<close>

text \<open>
  The API client is an external collaborator. Every handler calls each method at most
  once, so the client is a record of the answers it gives, one function per method; an
  answer is an error (\<open>Inl\<close>) or an entity (\<open>Inr\<close>). The handlers return, beside
  the diagnostics and the resource data, the list of the calls they issued, in order.
\<close>

record dp_client =
  Projects_GetByID :: "string \<Rightarrow> error + Project"
  DeploymentProcesses_GetByID :: "string \<Rightarrow> error + DeploymentProcess"
  DeploymentProcesses_Get :: "Project \<Rightarrow> string \<Rightarrow> error + DeploymentProcess"
  DeploymentProcesses_Update :: "DeploymentProcess \<Rightarrow> error + DeploymentProcess"

datatype dp_call =
  Call_Projects_GetByID string
| Call_DeploymentProcesses_GetByID string
| Call_DeploymentProcesses_Get Project string
| Call_DeploymentProcesses_Update DeploymentProcess

text \<open>
  Two helpers of the repository whose bodies are not among the source files are taken as
  parameters: \<open>setDeploymentProcess\<close>, which writes an entity into the resource data and
  may fail, and \<open>errors.ProcessApiError\<close>, which turns an error of the API into
  diagnostics and may change the resource data.
\<close>

record dp_helpers =
  setDeploymentProcess :: "dp_data \<Rightarrow> DeploymentProcess \<Rightarrow> error option \<times> dp_data"
  ProcessApiError :: "dp_data \<Rightarrow> error \<Rightarrow> string \<Rightarrow> diagnostics \<times> dp_data"

text \<open>
  Modelled from the spec: \<open>expandDeploymentProcess\<close>, the builder of the deployment
  process, is not among the source files. The spec has a builder translate the
  configuration block into the request payload: the project ID, the branch, the steps and
  the other fields of the schema are copied from the configuration. The identifier of
  the payload is the local identifier, which Update submits when the lookup by
  identifier succeeds; Create and the fallback path of Update overwrite it.
\<close>

definition expandDeploymentProcess :: "dp_data \<Rightarrow> DeploymentProcess" where
  "expandDeploymentProcess d =
     \<lparr>ID = dp_Id d, Links = Map.empty, Version = word_of_int (dp_version d),
      ProjectID = dp_project_id d, Branch = dp_branch d,
      LastSnapshotID = dp_last_snapshot_id d, SpaceID = dp_space_id d,
      Steps = dp_step d\<rparr>"

text \<open>
  Modelled from the spec: \<open>errors.DeleteFromState\<close> is not among the source files. The
  spec has a final not-found during Read drop the local record silently: the identifier
  is cleared and no diagnostic is returned.
\<close>

definition DeleteFromState :: "dp_data \<Rightarrow> string \<Rightarrow> diagnostics \<times> dp_data" where
  "DeleteFromState d resource = ([], d\<lparr>dp_Id := []\<rparr>)"

subsection \<open>Handlers\<close>

type_synonym dp_outcome = "diagnostics \<times> dp_data \<times> dp_call list"

text \<open>\<open>resourceDeploymentProcessCreate\<close>\<close>

definition resourceDeploymentProcessCreate ::
    "dp_helpers \<Rightarrow> dp_client \<Rightarrow> dp_data \<Rightarrow> dp_outcome" where
  "resourceDeploymentProcessCreate h m d =
     (let deploymentProcess = expandDeploymentProcess d;
          c1 = [Call_Projects_GetByID (ProjectID deploymentProcess)]
      in case Projects_GetByID m (ProjectID deploymentProcess) of
           Inl err \<Rightarrow> (diag_FromErr err, d, c1)
         | Inr project \<Rightarrow>
             (let c2 = c1 @
                    (if isVersionControlled project
                     then [Call_DeploymentProcesses_Get project (Branch deploymentProcess)]
                     else [Call_DeploymentProcesses_GetByID (DeploymentProcessID project)])
              in case (if isVersionControlled project
                       then DeploymentProcesses_Get m project (Branch deploymentProcess)
                       else DeploymentProcesses_GetByID m (DeploymentProcessID project)) of
                   Inl err \<Rightarrow> (diag_FromErr err, d, c2)
                 | Inr current \<Rightarrow>
                     (let deploymentProcess' = deploymentProcess
                            \<lparr>ID := ID current, Links := Links current,
                             Version := Version current\<rparr>;
                          c3 = c2 @ [Call_DeploymentProcesses_Update deploymentProcess']
                      in case DeploymentProcesses_Update m deploymentProcess' of
                           Inl err \<Rightarrow> (diag_FromErr err, d, c3)
                         | Inr createdDeploymentProcess \<Rightarrow>
                             (case setDeploymentProcess h d createdDeploymentProcess of
                                (Some err, d') \<Rightarrow> (diag_FromErr err, d', c3)
                              | (None, d') \<Rightarrow>
                                  (let ident =
                                         (if isVersionControlled project
                                          then ''deploymentprocess-''
                                               @ ProjectID createdDeploymentProcess
                                               @ ''-'' @ Branch deploymentProcess'
                                          else ID createdDeploymentProcess)
                                   in ([], d'\<lparr>dp_Id := ident\<rparr>, c3))))))"

text \<open>
  \<open>resourceDeploymentProcessDelete\<close>. The payload of both paths is the composite
  literal \<open>DeploymentProcess{Version: current.Version}\<close> with the links of the current
  entity and the local identifier.
\<close>

definition emptiedProcess :: "dp_data \<Rightarrow> DeploymentProcess \<Rightarrow> DeploymentProcess" where
  "emptiedProcess d current =
     zero_DeploymentProcess
       \<lparr>Version := Version current, Links := Links current, ID := dp_Id d\<rparr>"

definition resourceDeploymentProcessDelete :: "dp_client \<Rightarrow> dp_data \<Rightarrow> dp_outcome" where
  "resourceDeploymentProcessDelete m d =
     (let c1 = [Call_DeploymentProcesses_GetByID (dp_Id d)]
      in case DeploymentProcesses_GetByID m (dp_Id d) of
           Inr current \<Rightarrow>
             (let deploymentProcess = emptiedProcess d current;
                  c2 = c1 @ [Call_DeploymentProcesses_Update deploymentProcess]
              in case DeploymentProcesses_Update m deploymentProcess of
                   Inl err \<Rightarrow> (diag_FromErr err, d, c2)
                 | Inr _ \<Rightarrow> ([], d\<lparr>dp_Id := []\<rparr>, c2))
         | Inl _ \<Rightarrow>
             (let projectID = findProjectPattern (dp_Id d);
                  c2 = c1 @ [Call_Projects_GetByID projectID]
              in case Projects_GetByID m projectID of
                   Inl err \<Rightarrow> (diag_FromErr err, d, c2)
                 | Inr project \<Rightarrow>
                     (let gitRef = getGitRef (dp_Id d);
                          c3 = c2 @ [Call_DeploymentProcesses_Get project gitRef]
                      in case DeploymentProcesses_Get m project gitRef of
                           Inl err \<Rightarrow> (diag_FromErr err, d, c3)
                         | Inr current \<Rightarrow>
                             (let deploymentProcess = emptiedProcess d current;
                                  c4 = c3 @ [Call_DeploymentProcesses_Update deploymentProcess]
                              in case DeploymentProcesses_Update m deploymentProcess of
                                   Inl err \<Rightarrow> (diag_FromErr err, d, c4)
                                 | Inr _ \<Rightarrow> ([], d\<lparr>dp_Id := []\<rparr>, c4)))))"

text \<open>\<open>resourceDeploymentProcessRead\<close>\<close>

definition resourceDeploymentProcessRead ::
    "dp_helpers \<Rightarrow> dp_client \<Rightarrow> dp_data \<Rightarrow> dp_outcome" where
  "resourceDeploymentProcessRead h m d =
     (let c1 = [Call_DeploymentProcesses_GetByID (dp_Id d)]
      in case DeploymentProcesses_GetByID m (dp_Id d) of
           Inr deploymentProcess \<Rightarrow>
             (case setDeploymentProcess h d deploymentProcess of
                (Some err, d') \<Rightarrow> (diag_FromErr err, d', c1)
              | (None, d') \<Rightarrow> ([], d', c1))
         | Inl _ \<Rightarrow>
             (let projectID = findProjectPattern (dp_Id d);
                  c2 = c1 @ [Call_Projects_GetByID projectID]
              in case Projects_GetByID m projectID of
                   Inl err \<Rightarrow>
                     (case ProcessApiError h d err ''project'' of
                        (ds, d') \<Rightarrow> (ds, d', c2))
                 | Inr project \<Rightarrow>
                     (let gitRef = getGitRef (dp_Id d);
                          c3 = c2 @ [Call_DeploymentProcesses_Get project gitRef]
                      in case DeploymentProcesses_Get m project gitRef of
                           Inr deploymentProcess \<Rightarrow>
                             (case setDeploymentProcess h d deploymentProcess of
                                (Some err, d') \<Rightarrow> (diag_FromErr err, d', c3)
                              | (None, d') \<Rightarrow> ([], d', c3))
                         | Inl _ \<Rightarrow>
                             (case DeleteFromState d ''deployment process'' of
                                (ds, d') \<Rightarrow> (ds, d', c3)))))"

text \<open>\<open>resourceDeploymentProcessUpdate\<close>\<close>

definition branchChangeMessage :: string where
  "branchChangeMessage =
     ''you cannot change a deployment processes branch. instead create a new resource with the new branch and, if required, destroy the previous one''"

text \<open>
  The part of the handler after the current entity is resolved: the links and the version
  are copied, the update is submitted and the answer is written to the resource data.
\<close>

definition submitUpdate ::
    "dp_helpers \<Rightarrow> dp_client \<Rightarrow> dp_data \<Rightarrow> DeploymentProcess \<Rightarrow> DeploymentProcess
       \<Rightarrow> dp_call list \<Rightarrow> dp_outcome" where
  "submitUpdate h m d deploymentProcess current cs =
     (let deploymentProcess' = deploymentProcess
            \<lparr>Links := Links current, Version := Version current\<rparr>;
          cs' = cs @ [Call_DeploymentProcesses_Update deploymentProcess']
      in case DeploymentProcesses_Update m deploymentProcess' of
           Inl err \<Rightarrow> (diag_FromErr err, d, cs')
         | Inr updatedDeploymentProcess \<Rightarrow>
             (case setDeploymentProcess h d updatedDeploymentProcess of
                (Some err, d') \<Rightarrow> (diag_FromErr err, d', cs')
              | (None, d') \<Rightarrow> ([], d', cs')))"

text \<open>
  The fallback path of the handler from the point where the project is resolved and the
  local variable \<open>gitRef\<close> is set: the guard on the branch, the rewrite of the
  identifier for a version-controlled project and the lookup by project and branch.
  \<^verbatim>\<open>
  gitRef := getGitRef(d)
  if deploymentProcess.Branch != gitRef && gitRef != "" {
      return diag.Errorf("you cannot change a deployment processes branch. ...")
  }
  \<close>
\<close>

definition updateFallback ::
    "dp_helpers \<Rightarrow> dp_client \<Rightarrow> dp_data \<Rightarrow> DeploymentProcess \<Rightarrow> string \<Rightarrow> Project
       \<Rightarrow> string \<Rightarrow> dp_call list \<Rightarrow> dp_outcome" where
  "updateFallback h m d deploymentProcess projectID project gitRef c2 =
     (if Branch deploymentProcess \<noteq> gitRef \<and> gitRef \<noteq> []
      then (diag_Errorf branchChangeMessage, d, c2)
      else
        (let deploymentProcess' =
               (if isVersionControlled project
                then deploymentProcess
                       \<lparr>ID := ''deploymentprocess-'' @ projectID @ ''-''
                              @ Branch deploymentProcess\<rparr>
                else deploymentProcess);
             d' = (if isVersionControlled project
                   then d\<lparr>dp_Id := ID deploymentProcess'\<rparr> else d);
             c3 = c2 @ [Call_DeploymentProcesses_Get project (Branch deploymentProcess')]
         in case DeploymentProcesses_Get m project (Branch deploymentProcess') of
              Inl err \<Rightarrow> (diag_FromErr err, d', c3)
            | Inr current \<Rightarrow> submitUpdate h m d' deploymentProcess' current c3))"

definition resourceDeploymentProcessUpdate ::
    "dp_helpers \<Rightarrow> dp_client \<Rightarrow> dp_data \<Rightarrow> dp_outcome" where
  "resourceDeploymentProcessUpdate h m d =
     (let deploymentProcess = expandDeploymentProcess d;
          c1 = [Call_DeploymentProcesses_GetByID (dp_Id d)]
      in case DeploymentProcesses_GetByID m (dp_Id d) of
           Inr current \<Rightarrow> submitUpdate h m d deploymentProcess current c1
         | Inl _ \<Rightarrow>
             (let projectID = findProjectPattern (dp_Id d);
                  c2 = c1 @ [Call_Projects_GetByID projectID]
              in case Projects_GetByID m projectID of
                   Inl err \<Rightarrow> (diag_FromErr err, d, c2)
                 | Inr project \<Rightarrow>
                     updateFallback h m d deploymentProcess projectID project
                       (getGitRef (dp_Id d)) c2))"

section \<open>The deployment-target trigger resource\<close>

subsection \<open>Data\<close>

record ProjectTriggerFilter =
  EnvironmentIDs :: "string list"
  EventCategories :: "string list"
  EventGroups :: "string list"
  Roles :: "string list"

record ProjectTriggerAction =
  ShouldRedeployWhenMachineHasBeenDeployedTo :: bool

record ProjectTrigger =
  trigger_ID :: string
  trigger_Name :: string
  trigger_ProjectID :: string
  Action :: ProjectTriggerAction
  Filter :: ProjectTriggerFilter

text \<open>
  The constructor of the client library: name, project, redeploy flag, roles, event
  groups and event categories; a \<open>nil\<close> slice is the empty list.
\<close>

definition NewProjectDeploymentTargetTrigger ::
    "string \<Rightarrow> string \<Rightarrow> bool \<Rightarrow> string list \<Rightarrow> string list \<Rightarrow> string list
       \<Rightarrow> ProjectTrigger" where
  "NewProjectDeploymentTargetTrigger name projectID shouldRedeploy roles eventGroups
       eventCategories =
     \<lparr>trigger_ID = [], trigger_Name = name, trigger_ProjectID = projectID,
      Action = \<lparr>ShouldRedeployWhenMachineHasBeenDeployedTo = shouldRedeploy\<rparr>,
      Filter = \<lparr>EnvironmentIDs = [], EventCategories = eventCategories,
                EventGroups = eventGroups, Roles = roles\<rparr>\<rparr>"

definition AddEventGroups :: "ProjectTrigger \<Rightarrow> string list \<Rightarrow> ProjectTrigger" where
  "AddEventGroups t eventGroups =
     t\<lparr>Filter := (Filter t)\<lparr>EventGroups := EventGroups (Filter t) @ eventGroups\<rparr>\<rparr>"

definition AddEventCategories :: "ProjectTrigger \<Rightarrow> string list \<Rightarrow> ProjectTrigger" where
  "AddEventCategories t eventCategories =
     t\<lparr>Filter := (Filter t)
          \<lparr>EventCategories := EventCategories (Filter t) @ eventCategories\<rparr>\<rparr>"

text \<open>
  \<open>schema.ResourceData\<close> of a trigger. \<open>d.GetOk\<close> on a list field answers
  \<open>ok\<close> exactly when the list is not empty.
\<close>

record trigger_data =
  tr_Id :: string
  tr_name :: string
  tr_project_id :: string
  tr_should_redeploy :: bool
  tr_event_groups :: "string list"
  tr_event_categories :: "string list"
  tr_roles :: "string list"
  tr_environment_ids :: "string list"

subsection \<open>Validation\<close>

text \<open>
  Modelled from the spec: \<open>getSliceFromTerraformTypeList\<close> is not among the source
  files; it projects a list of the configuration to a slice of strings.
\<close>

definition getSliceFromTerraformTypeList :: "string list \<Rightarrow> string list" where
  "getSliceFromTerraformTypeList list = list"

text \<open>
  Modelled from the spec: \<open>validateAllSliceItemsInSlice\<close> is not among the source
  files. The spec has Build check that the given values are a subset of the fixed
  enumeration and name the offending value if not: the answer is the first given value
  that is not in the enumeration, with \<open>False\<close>, or the empty string with \<open>True\<close>.
\<close>

fun validateAllSliceItemsInSlice :: "string list \<Rightarrow> string list \<Rightarrow> string \<times> bool" where
  "validateAllSliceItemsInSlice [] validationSlice = ([], True)"
| "validateAllSliceItemsInSlice (v # vs) validationSlice =
     (if v \<in> set validationSlice then validateAllSliceItemsInSlice vs validationSlice
      else (v, False))"

definition validEventGroups :: "string list" where
  "validEventGroups =
     [''Machine'', ''MachineCritical'', ''MachineAvailableForDeployment'',
      ''MachineUnavailableForDeployment'', ''MachineHealthChanged'']"

definition validEventCategories :: "string list" where
  "validEventCategories =
     [''MachineCleanupFailed'', ''MachineAdded'',
      ''MachineDeploymentRelatedPropertyWasUpdated'', ''MachineDisabled'',
      ''MachineEnabled'', ''MachineHealthy'', ''MachineUnavailable'', ''MachineUnhealthy'',
      ''MachineHasWarnings'']"

text \<open>The verb \<open>%v\<close> of \<open>fmt\<close> on a slice of strings: \<open>[a b c]\<close>.\<close>

fun join_spaces :: "string list \<Rightarrow> string" where
  "join_spaces [] = []"
| "join_spaces [x] = x"
| "join_spaces (x # y # ys) = x @ '' '' @ join_spaces (y # ys)"

definition fmt_v :: "string list \<Rightarrow> string" where
  "fmt_v xs = ''['' @ join_spaces xs @ '']''"

definition invalidValueError :: "string \<Rightarrow> string \<Rightarrow> string list \<Rightarrow> error" where
  "invalidValueError field invalidValue validValues =
     Errorf (''Invalid value for '' @ field @ ''. '' @ invalidValue @ '' not in ''
             @ fmt_v validValues)"

subsection \<open>Builder and handlers\<close>

text \<open>\<open>buildProjectDeploymentTargetTriggerResource\<close>\<close>

definition buildProjectDeploymentTargetTriggerResource ::
    "trigger_data \<Rightarrow> error + ProjectTrigger" where
  "buildProjectDeploymentTargetTriggerResource d =
     (let t0 = NewProjectDeploymentTargetTrigger (tr_name d) (tr_project_id d)
                 (tr_should_redeploy d) [] [] []
      in case (if tr_event_groups d \<noteq> []
               then (let eventGroups = getSliceFromTerraformTypeList (tr_event_groups d)
                     in case validateAllSliceItemsInSlice eventGroups validEventGroups of
                          (invalidValue, ok) \<Rightarrow>
                            if \<not> ok
                            then Inl (invalidValueError ''event_groups'' invalidValue
                                        validEventGroups)
                            else Inr (AddEventGroups t0 eventGroups))
               else Inr t0) of
           Inl err \<Rightarrow> Inl err
         | Inr t1 \<Rightarrow>
             (case (if tr_event_categories d \<noteq> []
                    then (let eventCategories =
                                getSliceFromTerraformTypeList (tr_event_categories d)
                          in case validateAllSliceItemsInSlice eventCategories
                                    validEventCategories of
                               (invalidValue, ok) \<Rightarrow>
                                 if \<not> ok
                                 then Inl (invalidValueError ''event_categories''
                                             invalidValue validEventCategories)
                                 else Inr (AddEventCategories t1 eventCategories))
                    else Inr t1) of
                Inl err \<Rightarrow> Inl err
              | Inr t2 \<Rightarrow>
                  (let t3 = (if tr_roles d \<noteq> []
                             then t2\<lparr>Filter := (Filter t2)
                                     \<lparr>Roles := getSliceFromTerraformTypeList (tr_roles d)\<rparr>\<rparr>
                             else t2);
                       t4 = (if tr_environment_ids d \<noteq> []
                             then t3\<lparr>Filter := (Filter t3)
                                     \<lparr>EnvironmentIDs :=
                                        getSliceFromTerraformTypeList
                                          (tr_environment_ids d)\<rparr>\<rparr>
                             else t3)
                   in Inr t4)))"

text \<open>
  The client of the trigger endpoints. \<open>GetByID\<close> answers an error, or no error with
  an entity that may be \<open>nil\<close> (\<open>None\<close>); \<open>DeleteByID\<close> answers an error or
  \<open>nil\<close>.
\<close>

record trigger_client =
  ProjectTriggers_Add :: "ProjectTrigger \<Rightarrow> error + ProjectTrigger"
  ProjectTriggers_GetByID :: "string \<Rightarrow> error + ProjectTrigger option"
  ProjectTriggers_Update :: "ProjectTrigger \<Rightarrow> error + ProjectTrigger"
  ProjectTriggers_DeleteByID :: "string \<Rightarrow> error option"

datatype trigger_call =
  Call_ProjectTriggers_Add ProjectTrigger
| Call_ProjectTriggers_GetByID string
| Call_ProjectTriggers_Update ProjectTrigger
| Call_ProjectTriggers_DeleteByID string

type_synonym trigger_outcome = "diagnostics \<times> trigger_data \<times> trigger_call list"

text \<open>
  \<open>resourceProjectDeploymentTargetTriggerCreate\<close>. The helper \<open>isEmpty\<close> is not
  among the source files and is a parameter.
\<close>

definition resourceProjectDeploymentTargetTriggerCreate ::
    "(string \<Rightarrow> bool) \<Rightarrow> trigger_client \<Rightarrow> trigger_data \<Rightarrow> trigger_outcome" where
  "resourceProjectDeploymentTargetTriggerCreate isEmpty m d =
     (case buildProjectDeploymentTargetTriggerResource d of
        Inl err \<Rightarrow> (diag_FromErr err, d, [])
      | Inr projectTrigger \<Rightarrow>
          (let cs = [Call_ProjectTriggers_Add projectTrigger]
           in case ProjectTriggers_Add m projectTrigger of
                Inl err \<Rightarrow> (diag_FromErr err, d, cs)
              | Inr resource \<Rightarrow>
                  (if isEmpty (trigger_ID resource) then ([], d, cs)
                   else ([], d\<lparr>tr_Id := trigger_ID resource\<rparr>, cs))))"

text \<open>\<open>resourceProjectDeploymentTargetTriggerRead\<close>\<close>

definition resourceProjectDeploymentTargetTriggerRead ::
    "trigger_client \<Rightarrow> trigger_data \<Rightarrow> trigger_outcome" where
  "resourceProjectDeploymentTargetTriggerRead m d =
     (let ident = tr_Id d; cs = [Call_ProjectTriggers_GetByID ident]
      in case ProjectTriggers_GetByID m ident of
           Inl err \<Rightarrow> (diag_FromErr err, d, cs)
         | Inr None \<Rightarrow> ([], d\<lparr>tr_Id := []\<rparr>, cs)
         | Inr (Some resource) \<Rightarrow>
             ([],
              d\<lparr>tr_environment_ids := EnvironmentIDs (Filter resource),
                tr_event_groups := EventGroups (Filter resource),
                tr_event_categories := EventCategories (Filter resource),
                tr_name := trigger_Name resource,
                tr_roles := Roles (Filter resource),
                tr_should_redeploy :=
                  ShouldRedeployWhenMachineHasBeenDeployedTo (Action resource)\<rparr>,
              cs))"

text \<open>\<open>resourceProjectDeploymentTargetTriggerUpdate\<close>\<close>

definition resourceProjectDeploymentTargetTriggerUpdate ::
    "trigger_client \<Rightarrow> trigger_data \<Rightarrow> trigger_outcome" where
  "resourceProjectDeploymentTargetTriggerUpdate m d =
     (case buildProjectDeploymentTargetTriggerResource d of
        Inl err \<Rightarrow> (diag_FromErr err, d, [])
      | Inr built \<Rightarrow>
          (let projectTrigger = built\<lparr>trigger_ID := tr_Id d\<rparr>;
               cs = [Call_ProjectTriggers_Update projectTrigger]
           in case ProjectTriggers_Update m projectTrigger of
                Inl err \<Rightarrow> (diag_FromErr err, d, cs)
              | Inr resource \<Rightarrow> ([], d\<lparr>tr_Id := trigger_ID resource\<rparr>, cs)))"

text \<open>\<open>resourceProjectDeploymentTargetTriggerDelete\<close>\<close>

definition resourceProjectDeploymentTargetTriggerDelete ::
    "trigger_client \<Rightarrow> trigger_data \<Rightarrow> trigger_outcome" where
  "resourceProjectDeploymentTargetTriggerDelete m d =
     (let cs = [Call_ProjectTriggers_DeleteByID (tr_Id d)]
      in case ProjectTriggers_DeleteByID m (tr_Id d) of
           Some err \<Rightarrow> (diag_FromErr err, d, cs)
         | None \<Rightarrow> ([], d\<lparr>tr_Id := []\<rparr>, cs))"

section \<open>The lifecycle resource\<close>

subsection \<open>Data\<close>

record RetentionPeriod =
  QuantityToKeep :: "32 word"
  ShouldKeepForever :: bool
  Unit :: string

text \<open>
  A phase of the client library. Its two retention periods are pointers (\<open>None\<close> is
  \<open>nil\<close>); the two counts are \<open>int32\<close>.
\<close>

record Phase =
  AutomaticDeploymentTargets :: "string list"
  phase_ID :: string
  IsOptionalPhase :: bool
  MinimumEnvironmentsBeforePromotion :: "32 word"
  phase_Name :: string
  OptionalDeploymentTargets :: "string list"
  phase_ReleaseRetentionPolicy :: "RetentionPeriod option"
  phase_TentacleRetentionPolicy :: "RetentionPeriod option"

record Lifecycle =
  lifecycle_ID :: string
  lifecycle_Description :: string
  lifecycle_Name :: string
  Phases :: "Phase list"
  ReleaseRetentionPolicy :: RetentionPeriod
  TentacleRetentionPolicy :: RetentionPeriod

text \<open>
  \<open>strings.TrimSpace\<close>: the white space of Unicode is cut from both ends. The
  white-space code points, in UTF-8: the six of ASCII, U+0085, U+00A0, U+1680, U+2000 to
  U+200A, U+2028, U+2029, U+202F, U+205F and U+3000.
\<close>

definition spaceRunes :: "string list" where
  "spaceRunes =
     [[CHR 0x09], [CHR 0x0A], [CHR 0x0B], [CHR 0x0C], [CHR 0x0D], [CHR 0x20],
      [CHR 0xC2, CHR 0x85], [CHR 0xC2, CHR 0xA0], [CHR 0xE1, CHR 0x9A, CHR 0x80],
      [CHR 0xE2, CHR 0x80, CHR 0x80], [CHR 0xE2, CHR 0x80, CHR 0x81],
      [CHR 0xE2, CHR 0x80, CHR 0x82], [CHR 0xE2, CHR 0x80, CHR 0x83],
      [CHR 0xE2, CHR 0x80, CHR 0x84], [CHR 0xE2, CHR 0x80, CHR 0x85],
      [CHR 0xE2, CHR 0x80, CHR 0x86], [CHR 0xE2, CHR 0x80, CHR 0x87],
      [CHR 0xE2, CHR 0x80, CHR 0x88], [CHR 0xE2, CHR 0x80, CHR 0x89],
      [CHR 0xE2, CHR 0x80, CHR 0x8A], [CHR 0xE2, CHR 0x80, CHR 0xA8],
      [CHR 0xE2, CHR 0x80, CHR 0xA9], [CHR 0xE2, CHR 0x80, CHR 0xAF],
      [CHR 0xE2, CHR 0x81, CHR 0x9F], [CHR 0xE3, CHR 0x80, CHR 0x80]]"

text \<open>The number of bytes of the rune of \<open>runes\<close> the string starts with, or 0.\<close>

definition leadingRune :: "string list \<Rightarrow> string \<Rightarrow> nat" where
  "leadingRune runes s =
     (case filter (\<lambda>r. take (length r) s = r) runes of
        [] \<Rightarrow> 0
      | r # _ \<Rightarrow> length r)"

fun trimLeading :: "string list \<Rightarrow> string \<Rightarrow> string" where
  "trimLeading runes [] = []"
| "trimLeading runes (c # cs) =
     (if leadingRune runes (c # cs) = 0 then c # cs
      else trimLeading runes (drop (leadingRune runes (c # cs) - 1) cs))"

definition TrimSpace :: "string \<Rightarrow> string" where
  "TrimSpace s = rev (trimLeading (map rev spaceRunes) (rev (trimLeading spaceRunes s)))"

text \<open>
  The constructor of the client library: the name is trimmed, the list of phases is
  empty, and both retention periods are 30 days.
\<close>

definition NewRetentionPeriod :: RetentionPeriod where
  "NewRetentionPeriod = \<lparr>QuantityToKeep = 30, ShouldKeepForever = False, Unit = ''Days''\<rparr>"

definition NewLifecycle :: "string \<Rightarrow> Lifecycle" where
  "NewLifecycle name =
     \<lparr>lifecycle_ID = [], lifecycle_Description = [], lifecycle_Name = TrimSpace name,
      Phases = [], ReleaseRetentionPolicy = NewRetentionPeriod,
      TentacleRetentionPolicy = NewRetentionPeriod\<rparr>"

text \<open>
  A retention-period block of the schema: \<open>quantity_to_keep\<close> (an \<open>int\<close>),
  \<open>should_keep_forever\<close> and \<open>unit\<close>.
\<close>

record retention_block =
  rb_quantity_to_keep :: int
  rb_should_keep_forever :: bool
  rb_unit :: string

text \<open>
  The value stored under a retention key of a phase is dynamically typed: the
  configuration holds a list of blocks, \<open>flattenPhase\<close> stores the field of the
  entity as it is.
\<close>

datatype phase_retention =
  RetentionBlocks "retention_block list"
| RetentionStruct "RetentionPeriod option"

record phase_block =
  pb_automatic_deployment_targets :: "string list"
  pb_id :: string
  pb_is_optional_phase :: bool
  pb_minimum_environments_before_promotion :: int
  pb_name :: string
  pb_optional_deployment_targets :: "string list"
  pb_release_retention_policy :: phase_retention
  pb_tentacle_retention_policy :: phase_retention

text \<open>
  \<open>schema.ResourceData\<close> of a lifecycle; \<open>d.Set(key, v)\<close> replaces the value
  stored under \<open>key\<close> when the plugin runtime accepts \<open>v\<close> for the schema of
  the key.
\<close>

record lifecycle_data =
  lc_Id :: string
  lc_description :: string
  lc_name :: string
  lc_phase :: "phase_block list"
  lc_release_retention_policy :: "retention_block list"
  lc_tentacle_retention_policy :: "retention_block list"

subsection \<open>Builders\<close>

text \<open>
  \<open>getRetentionPeriod(d, key)\<close>; the model takes the list stored under the key.
  \<open>d.GetOk\<close> answers \<open>ok\<close> when the list is not empty. The composite literal names
  \<open>Unit\<close> and \<open>QuantityToKeep\<close> only, so \<open>ShouldKeepForever\<close> has its zero value;
  the conversion \<open>int32(...)\<close> keeps the low 32 bits.
\<close>

definition getRetentionPeriod :: "retention_block list \<Rightarrow> RetentionPeriod option" where
  "getRetentionPeriod v =
     (if v \<noteq> []
      then (case v of
              [tfRetentionItem] \<Rightarrow>
                Some \<lparr>QuantityToKeep = word_of_int (rb_quantity_to_keep tfRetentionItem),
                      ShouldKeepForever = False,
                      Unit = rb_unit tfRetentionItem\<rparr>
            | _ \<Rightarrow> None)
      else None)"

text \<open>
  \<open>buildPhaseResource\<close>. A \<open>nil\<close> slice and an empty slice are both the empty
  list, so the two checks against \<open>nil\<close> leave the lists as they are.
\<close>

definition buildPhaseResource :: "phase_block \<Rightarrow> Phase" where
  "buildPhaseResource tfPhase =
     \<lparr>AutomaticDeploymentTargets =
        getSliceFromTerraformTypeList (pb_automatic_deployment_targets tfPhase),
      phase_ID = [],
      IsOptionalPhase = pb_is_optional_phase tfPhase,
      MinimumEnvironmentsBeforePromotion =
        word_of_int (pb_minimum_environments_before_promotion tfPhase),
      phase_Name = pb_name tfPhase,
      OptionalDeploymentTargets =
        getSliceFromTerraformTypeList (pb_optional_deployment_targets tfPhase),
      phase_ReleaseRetentionPolicy = None,
      phase_TentacleRetentionPolicy = None\<rparr>"

text \<open>\<open>buildLifecycleResource\<close>\<close>

definition buildLifecycleResource :: "lifecycle_data \<Rightarrow> Lifecycle" where
  "buildLifecycleResource d =
     (let name = (if lc_name d \<noteq> [] then lc_name d else []);
          l0 = NewLifecycle name;
          l1 = (if lc_description d \<noteq> []
                then l0\<lparr>lifecycle_Description := lc_description d\<rparr> else l0);
          l2 = (case getRetentionPeriod (lc_release_retention_policy d) of
                  Some releaseRetentionPolicy \<Rightarrow>
                    l1\<lparr>ReleaseRetentionPolicy := releaseRetentionPolicy\<rparr>
                | None \<Rightarrow> l1);
          l3 = (case getRetentionPeriod (lc_tentacle_retention_policy d) of
                  Some tentacleRetentionPolicy \<Rightarrow>
                    l2\<lparr>TentacleRetentionPolicy := tentacleRetentionPolicy\<rparr>
                | None \<Rightarrow> l2)
      in if lc_phase d \<noteq> []
         then foldl (\<lambda>l tfPhase. l\<lparr>Phases := Phases l @ [buildPhaseResource tfPhase]\<rparr>)
                l3 (lc_phase d)
         else l3)"

subsection \<open>Flatteners\<close>

definition flattenPhase :: "Phase \<Rightarrow> phase_block list" where
  "flattenPhase p =
     [\<lparr>pb_automatic_deployment_targets = AutomaticDeploymentTargets p,
       pb_id = phase_ID p,
       pb_is_optional_phase = IsOptionalPhase p,
       pb_minimum_environments_before_promotion =
         sint (MinimumEnvironmentsBeforePromotion p),
       pb_name = phase_Name p,
       pb_optional_deployment_targets = OptionalDeploymentTargets p,
       pb_release_retention_policy = RetentionStruct (phase_ReleaseRetentionPolicy p),
       pb_tentacle_retention_policy = RetentionStruct (phase_TentacleRetentionPolicy p)\<rparr>]"

definition flattenRetentionPeriod :: "RetentionPeriod \<Rightarrow> retention_block list" where
  "flattenRetentionPeriod r =
     [\<lparr>rb_quantity_to_keep = sint (QuantityToKeep r),
       rb_should_keep_forever = ShouldKeepForever r,
       rb_unit = Unit r\<rparr>]"

text \<open>
  \<open>d.Set(constPhase, v)\<close>. The schema has a list of blocks under each retention key
  of a phase. The plugin runtime takes a \<open>nil\<close> pointer for the empty list and
  refuses a pointer to a struct: the call returns an error and the state keeps the
  phases it had.
\<close>

definition acceptedRetention :: "phase_retention \<Rightarrow> bool" where
  "acceptedRetention v =
     (case v of
        RetentionBlocks bs \<Rightarrow> True
      | RetentionStruct None \<Rightarrow> True
      | RetentionStruct (Some r) \<Rightarrow> False)"

definition Set_phase :: "lifecycle_data \<Rightarrow> phase_block list \<Rightarrow> lifecycle_data" where
  "Set_phase d v =
     (if list_all (\<lambda>b. acceptedRetention (pb_release_retention_policy b)
                       \<and> acceptedRetention (pb_tentacle_retention_policy b)) v
      then d\<lparr>lc_phase := v\<rparr> else d)"

text \<open>
  \<open>flattenLifecycle\<close>. The loop over the phases calls
  \<open>d.Set(constPhase, flattenPhase(phase))\<close> once for every phase and drops the error
  of the call.
\<close>

definition flattenLifecycle :: "lifecycle_data \<Rightarrow> Lifecycle \<Rightarrow> lifecycle_data" where
  "flattenLifecycle d lifecycle =
     (let d1 = d\<lparr>lc_description := lifecycle_Description lifecycle,
                 lc_name := lifecycle_Name lifecycle\<rparr>;
          d2 = foldl (\<lambda>d' phase. Set_phase d' (flattenPhase phase)) d1
                 (Phases lifecycle);
          d3 = d2\<lparr>lc_release_retention_policy :=
                     flattenRetentionPeriod (ReleaseRetentionPolicy lifecycle),
                   lc_tentacle_retention_policy :=
                     flattenRetentionPeriod (TentacleRetentionPolicy lifecycle)\<rparr>
      in d3\<lparr>lc_Id := lifecycle_ID lifecycle\<rparr>)"

subsection \<open>Handlers\<close>

record lifecycle_client =
  Lifecycles_Add :: "Lifecycle \<Rightarrow> error + Lifecycle"
  Lifecycles_GetByID :: "string \<Rightarrow> error + Lifecycle"
  Lifecycles_Update :: "Lifecycle \<Rightarrow> error + Lifecycle"
  Lifecycles_DeleteByID :: "string \<Rightarrow> error option"

datatype lifecycle_call =
  Call_Lifecycles_Add Lifecycle
| Call_Lifecycles_GetByID string
| Call_Lifecycles_Update Lifecycle
| Call_Lifecycles_DeleteByID string

type_synonym lifecycle_outcome = "diagnostics \<times> lifecycle_data \<times> lifecycle_call list"

definition resourceLifecycleCreate ::
    "lifecycle_client \<Rightarrow> lifecycle_data \<Rightarrow> lifecycle_outcome" where
  "resourceLifecycleCreate m d =
     (let lifecycle = buildLifecycleResource d; cs = [Call_Lifecycles_Add lifecycle]
      in case Lifecycles_Add m lifecycle of
           Inl err \<Rightarrow> (diag_FromErr err, d, cs)
         | Inr createdLifecycle \<Rightarrow> ([], flattenLifecycle d createdLifecycle, cs))"

definition resourceLifecycleRead ::
    "lifecycle_client \<Rightarrow> lifecycle_data \<Rightarrow> lifecycle_outcome" where
  "resourceLifecycleRead m d =
     (let cs = [Call_Lifecycles_GetByID (lc_Id d)]
      in case Lifecycles_GetByID m (lc_Id d) of
           Inl err \<Rightarrow> (diag_FromErr err, d, cs)
         | Inr lifecycle \<Rightarrow> ([], flattenLifecycle d lifecycle, cs))"

definition resourceLifecycleUpdate ::
    "lifecycle_client \<Rightarrow> lifecycle_data \<Rightarrow> lifecycle_outcome" where
  "resourceLifecycleUpdate m d =
     (let lifecycle = (buildLifecycleResource d)\<lparr>lifecycle_ID := lc_Id d\<rparr>;
          cs = [Call_Lifecycles_Update lifecycle]
      in case Lifecycles_Update m lifecycle of
           Inl err \<Rightarrow> (diag_FromErr err, d, cs)
         | Inr updatedLifecycle \<Rightarrow> ([], flattenLifecycle d updatedLifecycle, cs))"

definition resourceLifecycleDelete ::
    "lifecycle_client \<Rightarrow> lifecycle_data \<Rightarrow> lifecycle_outcome" where
  "resourceLifecycleDelete m d =
     (let cs = [Call_Lifecycles_DeleteByID (lc_Id d)]
      in case Lifecycles_DeleteByID m (lc_Id d) of
           Some err \<Rightarrow> (diag_FromErr err, d, cs)
         | None \<Rightarrow> ([], d\<lparr>lc_Id := []\<rparr>, cs))"

section \<open>Concrete collaborators and configurations\<close>

text \<open>
  The inputs of the worked examples below: helpers and clients that answer as a server
  would, and configurations of the three resources.
\<close>

definition echo_helpers :: dp_helpers where
  "echo_helpers =
     \<lparr>setDeploymentProcess =
        (\<lambda>d p. (None, d\<lparr>dp_branch := Branch p, dp_last_snapshot_id := LastSnapshotID p,
                         dp_project_id := ProjectID p, dp_space_id := SpaceID p,
                         dp_step := Steps p, dp_version := sint (Version p)\<rparr>)),
      ProcessApiError = (\<lambda>d err resource. (diag_FromErr err, d))\<rparr>"

definition vcs_project :: Project where
  "vcs_project =
     \<lparr>project_ID = ''Projects-123'',
      DeploymentProcessID = ''deploymentprocess-Projects-123'',
      PersistenceSettings = Some VersionControlled\<rparr>"

definition vcs_current :: DeploymentProcess where
  "vcs_current =
     \<lparr>ID = ''deploymentprocess-Projects-123'',
      Links = [''Self'' \<mapsto> ''/api/deploymentprocesses''],
      Version = 7, ProjectID = ''Projects-123'', Branch = [], LastSnapshotID = [],
      SpaceID = ''Spaces-1'', Steps = [''old step'']\<rparr>"

definition not_found :: error where
  "not_found = APIError 404 ''the resource was not found''"

text \<open>
  A server with one version-controlled project: no process is found by identifier, the
  process of the project is found by project and ref, and an update is answered with the
  payload at the next version.
\<close>

definition vcs_client :: dp_client where
  "vcs_client =
     \<lparr>Projects_GetByID =
        (\<lambda>i. if i = ''Projects-123'' then Inr vcs_project else Inl not_found),
      DeploymentProcesses_GetByID = (\<lambda>i. Inl not_found),
      DeploymentProcesses_Get = (\<lambda>p r. Inr vcs_current),
      DeploymentProcesses_Update = (\<lambda>p. Inr (p\<lparr>Version := Version p + 1\<rparr>))\<rparr>"

text \<open>
  The same server with two processes of the project: the one above is answered for the
  empty ref, another one for the ref \<open>main\<close>.
\<close>

definition main_current :: DeploymentProcess where
  "main_current =
     vcs_current\<lparr>Links := [''Self'' \<mapsto> ''/api/deploymentprocesses/main''],
                 Version := 12, Steps := [''deploy'']\<rparr>"

definition branches_client :: dp_client where
  "branches_client =
     vcs_client
       \<lparr>DeploymentProcesses_Get :=
          (\<lambda>p r. if r = ''main'' then Inr main_current
                  else if r = [] then Inr vcs_current else Inl not_found)\<rparr>"

text \<open>The same server after the branch was removed: the lookup by project and ref fails.\<close>

definition gone_client :: dp_client where
  "gone_client = vcs_client\<lparr>DeploymentProcesses_Get := (\<lambda>p r. Inl not_found)\<rparr>"

text \<open>A server whose project keeps its process in the database.\<close>

definition db_project :: Project where
  "db_project = vcs_project\<lparr>PersistenceSettings := Some Database\<rparr>"

definition db_client :: dp_client where
  "db_client =
     vcs_client
       \<lparr>Projects_GetByID := (\<lambda>i. Inr db_project),
        DeploymentProcesses_GetByID :=
          (\<lambda>i. if i = ''deploymentprocess-Projects-123'' then Inr vcs_current
                else Inl not_found)\<rparr>"

definition main_data :: dp_data where
  "main_data =
     \<lparr>dp_Id = ''deploymentprocess-Projects-123-main'', dp_branch = ''main'',
      dp_last_snapshot_id = [], dp_project_id = ''Projects-123'',
      dp_space_id = ''Spaces-1'', dp_step = [''deploy''], dp_version = 7\<rparr>"

definition stub_trigger_client ::
    "(error + ProjectTrigger option) \<Rightarrow> error option \<Rightarrow> trigger_client" where
  "stub_trigger_client got deleted =
     \<lparr>ProjectTriggers_Add = (\<lambda>t. Inr (t\<lparr>trigger_ID := ''ProjectTriggers-1''\<rparr>)),
      ProjectTriggers_GetByID = (\<lambda>i. got),
      ProjectTriggers_Update = (\<lambda>t. Inr t),
      ProjectTriggers_DeleteByID = (\<lambda>i. deleted)\<rparr>"

definition bad_trigger :: trigger_data where
  "bad_trigger =
     \<lparr>tr_Id = ''ProjectTriggers-1'', tr_name = ''redeploy'', tr_project_id = ''Projects-123'',
      tr_should_redeploy = True, tr_event_groups = [''Machine'', ''BadValue''],
      tr_event_categories = [], tr_roles = [''web''], tr_environment_ids = []\<rparr>"

definition good_trigger :: trigger_data where
  "good_trigger = bad_trigger\<lparr>tr_event_groups := [''Machine'']\<rparr>"

definition stub_lifecycle_client :: "error + Lifecycle \<Rightarrow> error option \<Rightarrow> lifecycle_client" where
  "stub_lifecycle_client stored deleted =
     \<lparr>Lifecycles_Add = (\<lambda>l. Inr (l\<lparr>lifecycle_ID := ''Lifecycles-1''\<rparr>)),
      Lifecycles_GetByID = (\<lambda>i. stored),
      Lifecycles_Update = (\<lambda>l. Inr l),
      Lifecycles_DeleteByID = (\<lambda>i. deleted)\<rparr>"

definition dev_phase :: phase_block where
  "dev_phase =
     \<lparr>pb_automatic_deployment_targets = [''Environments-1''], pb_id = [],
      pb_is_optional_phase = False, pb_minimum_environments_before_promotion = 0,
      pb_name = ''Dev'', pb_optional_deployment_targets = [],
      pb_release_retention_policy = RetentionBlocks [],
      pb_tentacle_retention_policy = RetentionBlocks []\<rparr>"

definition prod_phase :: phase_block where
  "prod_phase =
     dev_phase\<lparr>pb_automatic_deployment_targets := [], pb_name := ''Prod'',
               pb_optional_deployment_targets := [''Environments-2'']\<rparr>"

definition keep_forever :: retention_block where
  "keep_forever =
     \<lparr>rb_quantity_to_keep = 0, rb_should_keep_forever = True, rb_unit = ''Days''\<rparr>"

definition two_phase_lifecycle :: lifecycle_data where
  "two_phase_lifecycle =
     \<lparr>lc_Id = [], lc_description = ''two phases'', lc_name = ''Standard'',
      lc_phase = [dev_phase, prod_phase],
      lc_release_retention_policy = [keep_forever],
      lc_tentacle_retention_policy = []\<rparr>"

text \<open>The server stores what Create submitted, under the identifier it assigned.\<close>

definition stored_lifecycle :: Lifecycle where
  "stored_lifecycle =
     (buildLifecycleResource two_phase_lifecycle)\<lparr>lifecycle_ID := ''Lifecycles-1''\<rparr>"

definition stored_data :: lifecycle_data where
  "stored_data = two_phase_lifecycle\<lparr>lc_Id := ''Lifecycles-1''\<rparr>"

lemmas dp_fixture_defs = echo_helpers_def vcs_project_def vcs_current_def vcs_client_def
  gone_client_def main_data_def not_found_def main_current_def branches_client_def

section \<open>Properties of the git-ref extraction\<close>

lemma length_SplitAfter:
  "length (SplitAfter s sep) = Suc (length (filter (\<lambda>c. c = sep) s))"
proof (induction s)
  case Nil
  show ?case by simp
next
  case (Cons c cs)
  then show ?case by (cases "SplitAfter cs sep") auto
qed

lemma hyphen_not_digit: "\<not> isDigit CHR ''-''"
  by (simp add: isDigit_def)

lemma hyphen_not_word: "\<not> isWord CHR ''-''"
  by (simp add: isWord_def)

lemma no_hyphen_in_digits: "filter (\<lambda>c. c = CHR ''-'') (takeWhile isDigit s) = []"
proof -
  have "\<forall>c \<in> set (takeWhile isDigit s). c \<noteq> CHR ''-''"
    using hyphen_not_digit by (auto dest: set_takeWhileD)
  then show ?thesis by (simp add: filter_empty_conv)
qed

lemma no_hyphen_in_words: "filter (\<lambda>c. c = CHR ''-'') (takeWhile isWord s) = []"
proof -
  have "\<forall>c \<in> set (takeWhile isWord s). c \<noteq> CHR ''-''"
    using hyphen_not_word by (auto dest: set_takeWhileD)
  then show ?thesis by (simp add: filter_empty_conv)
qed

lemma matchGitRefAt_one_hyphen:
  assumes "matchGitRefAt s = Some m"
  shows "length (filter (\<lambda>c. c = CHR ''-'') m) = 1"
proof -
  obtain c after where rest: "dropWhile isDigit s = c # after"
    using assms by (cases "dropWhile isDigit s") (auto simp: matchGitRefAt_def)
  from assms rest have m: "m = takeWhile isDigit s @ CHR ''-'' # takeWhile isWord after"
    by (auto simp: matchGitRefAt_def Let_def split: if_splits)
  show ?thesis
    unfolding m by (simp add: no_hyphen_in_digits no_hyphen_in_words)
qed

lemma findGitRefPattern_hyphens:
  "length (filter (\<lambda>c. c = CHR ''-'') (findGitRefPattern s)) \<le> 1"
proof (induction s)
  case Nil
  show ?case by simp
next
  case (Cons c cs)
  show ?case
  proof (cases "matchGitRefAt (c # cs)")
    case None
    with Cons show ?thesis by simp
  next
    case (Some m)
    then show ?thesis using matchGitRefAt_one_hyphen [OF Some] by simp
  qed
qed

lemma getGitRef_empty: "getGitRef ident = []"
proof -
  have "length (SplitAfter (findGitRefPattern ident) CHR ''-'') \<le> 2"
    using findGitRefPattern_hyphens [of ident] by (simp add: length_SplitAfter)
  then show ?thesis by (simp add: getGitRef_def Let_def)
qed

text \<open>
  C2. For the composite identifier \<open>deploymentprocess-Projects-123-main\<close> the pattern
  \<open>\d+-\w+\<close> matches \<open>123-main\<close>, which \<open>SplitAfter\<close> cuts into the two pieces
  \<open>123-\<close> and \<open>main\<close>. The test \<open>len(parts) > 2\<close> fails on two pieces, so
  \<open>getGitRef\<close> returns the empty string and not the branch \<open>main\<close>.
\<close>

theorem getGitRef_composite_identifier:
  "findGitRefPattern ''deploymentprocess-Projects-123-main'' = ''123-main''
   \<and> SplitAfter ''123-main'' CHR ''-'' = [''123-'', ''main'']
   \<and> getGitRef ''deploymentprocess-Projects-123-main'' = []"
  by (simp add: getGitRef_def matchGitRefAt_def isDigit_def isWord_def)

section \<open>Properties of the deployment-process handlers\<close>

lemma diag_FromErr_nonempty: "diag_FromErr err \<noteq> []"
  by (simp add: diag_FromErr_def)

text \<open>
  A consequence of \<open>getGitRef_empty\<close> for Update: on the fallback path the identifier
  \<open>deploymentprocess-Projects-123-main\<close> gives the empty ref, so a new configuration
  with the branch \<open>dev\<close> passes the guard; the identifier is rewritten and the update
  is submitted.
\<close>

lemma Update_changed_branch_passes:
  "resourceDeploymentProcessUpdate echo_helpers vcs_client (main_data\<lparr>dp_branch := ''dev''\<rparr>) =
     ([],
      main_data\<lparr>dp_Id := ''deploymentprocess-Projects-123-dev'', dp_branch := ''dev'',
                dp_version := 8\<rparr>,
      [Call_DeploymentProcesses_GetByID ''deploymentprocess-Projects-123-main'',
       Call_Projects_GetByID ''Projects-123'',
       Call_DeploymentProcesses_Get vcs_project ''dev'',
       Call_DeploymentProcesses_Update
         \<lparr>ID = ''deploymentprocess-Projects-123-dev'', Links = Links vcs_current,
          Version = 7, ProjectID = ''Projects-123'', Branch = ''dev'', LastSnapshotID = [],
          SpaceID = ''Spaces-1'', Steps = [''deploy'']\<rparr>])"
  by (simp add: resourceDeploymentProcessUpdate_def updateFallback_def submitUpdate_def
      getGitRef_empty matchProjectAt_def isDigit_def expandDeploymentProcess_def
      isVersionControlled_def Let_def dp_fixture_defs)



text \<open>
  C4. After a successful Create (no diagnostic) the project was resolved, the current
  process was fetched (by project and branch when the project is version-controlled, by
  the process identifier of the project otherwise), the update was answered with the
  created process, and the local identifier is \<open>deploymentprocess-\<close>, the project ID
  of the created process, a hyphen and the configured branch for a version-controlled
  project, and the identifier the server assigned otherwise.
\<close>

theorem Create_identifier:
  assumes "resourceDeploymentProcessCreate h m d = ([], d', cs)"
  shows "\<exists>project current created.
           Projects_GetByID m (dp_project_id d) = Inr project
         \<and> (if isVersionControlled project
            then DeploymentProcesses_Get m project (dp_branch d)
            else DeploymentProcesses_GetByID m (DeploymentProcessID project)) = Inr current
         \<and> DeploymentProcesses_Update m
              ((expandDeploymentProcess d)
                 \<lparr>ID := ID current, Links := Links current, Version := Version current\<rparr>)
             = Inr created
         \<and> dp_Id d' =
             (if isVersionControlled project
              then ''deploymentprocess-'' @ ProjectID created @ ''-'' @ dp_branch d
              else ID created)"
  using assms
  by (auto simp: resourceDeploymentProcessCreate_def Let_def expandDeploymentProcess_def
        diag_FromErr_nonempty split: sum.splits option.splits prod.splits if_splits)

text \<open>
  The example of the spec: project \<open>Projects-123\<close>, version-controlled, branch
  \<open>main\<close>; and the same project with its process in the database.
\<close>

theorem Create_identifier_witness:
  "resourceDeploymentProcessCreate echo_helpers vcs_client (main_data\<lparr>dp_Id := []\<rparr>) =
     ([], main_data\<lparr>dp_version := 8\<rparr>,
      [Call_Projects_GetByID ''Projects-123'',
       Call_DeploymentProcesses_Get vcs_project ''main'',
       Call_DeploymentProcesses_Update
         ((expandDeploymentProcess main_data)
            \<lparr>ID := ID vcs_current, Links := Links vcs_current,
             Version := Version vcs_current\<rparr>)])
   \<and> dp_Id (main_data\<lparr>dp_version := 8\<rparr>) = ''deploymentprocess-Projects-123-main''
   \<and> resourceDeploymentProcessCreate echo_helpers db_client (main_data\<lparr>dp_Id := []\<rparr>) =
     ([], main_data\<lparr>dp_Id := ''deploymentprocess-Projects-123'', dp_version := 8\<rparr>,
      [Call_Projects_GetByID ''Projects-123'',
       Call_DeploymentProcesses_GetByID ''deploymentprocess-Projects-123'',
       Call_DeploymentProcesses_Update
         ((expandDeploymentProcess main_data)
            \<lparr>ID := ID vcs_current, Links := Links vcs_current,
             Version := Version vcs_current\<rparr>)])"
proof -
  have run: "resourceDeploymentProcessCreate echo_helpers vcs_client (main_data\<lparr>dp_Id := []\<rparr>) =
     ([], main_data\<lparr>dp_version := 8\<rparr>,
      [Call_Projects_GetByID ''Projects-123'',
       Call_DeploymentProcesses_Get vcs_project ''main'',
       Call_DeploymentProcesses_Update
         ((expandDeploymentProcess main_data)
            \<lparr>ID := ID vcs_current, Links := Links vcs_current,
             Version := Version vcs_current\<rparr>)])"
    by (simp add: resourceDeploymentProcessCreate_def expandDeploymentProcess_def
          isVersionControlled_def Let_def dp_fixture_defs)
  have run_db: "resourceDeploymentProcessCreate echo_helpers db_client (main_data\<lparr>dp_Id := []\<rparr>) =
     ([], main_data\<lparr>dp_Id := ''deploymentprocess-Projects-123'', dp_version := 8\<rparr>,
      [Call_Projects_GetByID ''Projects-123'',
       Call_DeploymentProcesses_GetByID ''deploymentprocess-Projects-123'',
       Call_DeploymentProcesses_Update
         ((expandDeploymentProcess main_data)
            \<lparr>ID := ID vcs_current, Links := Links vcs_current,
             Version := Version vcs_current\<rparr>)])"
    by (simp add: resourceDeploymentProcessCreate_def expandDeploymentProcess_def
          isVersionControlled_def Let_def dp_fixture_defs db_client_def db_project_def)
  from Create_identifier [OF run]
  have "dp_Id (main_data\<lparr>dp_version := 8\<rparr>) = ''deploymentprocess-Projects-123-main''"
    by (auto simp: isVersionControlled_def expandDeploymentProcess_def dp_fixture_defs
        split: if_splits)
  with run run_db show ?thesis by simp
qed

text \<open>
  Every successful Delete (no diagnostic) leaves the old resource data with the
  identifier cleared. The calls issued are the lookups followed by one Update, and
  nothing else: no delete is sent. The payload of the Update has the local identifier,
  the links and the version of the entity that was looked up, and every other field
  empty. On the fallback path the entity is looked up under the ref \<open>getGitRef\<close>
  gives.
\<close>

lemma Delete_successful_run:
  assumes "resourceDeploymentProcessDelete m d = ([], d', cs)"
  shows "d' = d\<lparr>dp_Id := []\<rparr>
       \<and> (\<exists>current answer.
             DeploymentProcesses_Update m (emptiedProcess d current) = Inr answer
           \<and> emptiedProcess d current =
               \<lparr>ID = dp_Id d, Links = Links current, Version = Version current,
                ProjectID = [], Branch = [], LastSnapshotID = [], SpaceID = [], Steps = []\<rparr>
           \<and> ((DeploymentProcesses_GetByID m (dp_Id d) = Inr current
               \<and> cs = [Call_DeploymentProcesses_GetByID (dp_Id d),
                       Call_DeploymentProcesses_Update (emptiedProcess d current)])
              \<or> (\<exists>err project.
                    DeploymentProcesses_GetByID m (dp_Id d) = Inl err
                  \<and> Projects_GetByID m (findProjectPattern (dp_Id d)) = Inr project
                  \<and> DeploymentProcesses_Get m project (getGitRef (dp_Id d)) = Inr current
                  \<and> cs = [Call_DeploymentProcesses_GetByID (dp_Id d),
                          Call_Projects_GetByID (findProjectPattern (dp_Id d)),
                          Call_DeploymentProcesses_Get project (getGitRef (dp_Id d)),
                          Call_DeploymentProcesses_Update (emptiedProcess d current)])))"
proof (cases "DeploymentProcesses_GetByID m (dp_Id d)")
  case (Inr current)
  with assms show ?thesis
    by (auto simp: resourceDeploymentProcessDelete_def Let_def diag_FromErr_nonempty
          emptiedProcess_def zero_DeploymentProcess_def split: sum.splits)
next
  case (Inl err)
  with assms show ?thesis
    by (auto simp: resourceDeploymentProcessDelete_def Let_def diag_FromErr_nonempty
          emptiedProcess_def zero_DeploymentProcess_def split: sum.splits)
qed

text \<open>
  C5. A Delete of \<open>deploymentprocess-Projects-123-main\<close> on the fallback path, on a
  server that answers one process for the ref \<open>main\<close> and another for the empty ref.
  The handler looks up the empty ref, not \<open>main\<close>, and submits the reset with the
  links and the version (7, not 12) of the process found there: the entity it resolves is
  not the current entity of the resource.
\<close>

theorem Delete_fallback_resolves_empty_ref:
  "DeploymentProcesses_Get branches_client vcs_project ''main'' = Inr main_current
   \<and> Version main_current = 12
   \<and> Links main_current = [''Self'' \<mapsto> ''/api/deploymentprocesses/main'']
   \<and> resourceDeploymentProcessDelete branches_client main_data =
       ([], main_data\<lparr>dp_Id := []\<rparr>,
        [Call_DeploymentProcesses_GetByID ''deploymentprocess-Projects-123-main'',
         Call_Projects_GetByID ''Projects-123'',
         Call_DeploymentProcesses_Get vcs_project [],
         Call_DeploymentProcesses_Update
           \<lparr>ID = ''deploymentprocess-Projects-123-main'',
            Links = [''Self'' \<mapsto> ''/api/deploymentprocesses''],
            Version = 7, ProjectID = [], Branch = [], LastSnapshotID = [], SpaceID = [],
            Steps = []\<rparr>])"
  by (simp add: resourceDeploymentProcessDelete_def emptiedProcess_def
        zero_DeploymentProcess_def getGitRef_empty matchProjectAt_def isDigit_def Let_def
        dp_fixture_defs)

text \<open>
  C6. A Read whose lookup by identifier fails, whose project is found and whose lookup by
  project and ref fails too: the identifier is cleared, the other fields are left as
  they are, and no diagnostic is returned.
\<close>

theorem Read_final_not_found_drops_record:
  assumes "DeploymentProcesses_GetByID m (dp_Id d) = Inl e1"
    and "Projects_GetByID m (findProjectPattern (dp_Id d)) = Inr project"
    and "DeploymentProcesses_Get m project (getGitRef (dp_Id d)) = Inl e2"
  shows "resourceDeploymentProcessRead h m d =
           ([], d\<lparr>dp_Id := []\<rparr>,
            [Call_DeploymentProcesses_GetByID (dp_Id d),
             Call_Projects_GetByID (findProjectPattern (dp_Id d)),
             Call_DeploymentProcesses_Get project (getGitRef (dp_Id d))])"
  using assms
  by (simp add: resourceDeploymentProcessRead_def DeleteFromState_def Let_def)

theorem Read_final_not_found_drops_record_witness:
  "DeploymentProcesses_GetByID gone_client (dp_Id main_data) = Inl not_found
   \<and> Projects_GetByID gone_client (findProjectPattern (dp_Id main_data)) = Inr vcs_project
   \<and> DeploymentProcesses_Get gone_client vcs_project (getGitRef (dp_Id main_data)) = Inl not_found
   \<and> resourceDeploymentProcessRead echo_helpers gone_client main_data =
       ([], main_data\<lparr>dp_Id := []\<rparr>,
        [Call_DeploymentProcesses_GetByID ''deploymentprocess-Projects-123-main'',
         Call_Projects_GetByID ''Projects-123'',
         Call_DeploymentProcesses_Get vcs_project []])"
proof -
  have id: "dp_Id main_data = ''deploymentprocess-Projects-123-main''"
    by (simp add: main_data_def)
  have fp: "findProjectPattern ''deploymentprocess-Projects-123-main'' = ''Projects-123''"
    by (simp add: matchProjectAt_def isDigit_def)
  have a: "DeploymentProcesses_GetByID gone_client (dp_Id main_data) = Inl not_found"
    by (simp add: gone_client_def vcs_client_def)
  have b: "Projects_GetByID gone_client (findProjectPattern (dp_Id main_data)) = Inr vcs_project"
    by (simp add: id matchProjectAt_def isDigit_def gone_client_def vcs_client_def)
  have c: "DeploymentProcesses_Get gone_client vcs_project (getGitRef (dp_Id main_data))
             = Inl not_found"
    by (simp add: gone_client_def vcs_client_def)
  show ?thesis
    using Read_final_not_found_drops_record [OF a b c, of echo_helpers] a b c
    by (simp only: id fp getGitRef_empty simp_thms)
qed

section \<open>Properties of the trigger handlers\<close>

lemma validate_subset:
  "set xs \<subseteq> set valid \<Longrightarrow> validateAllSliceItemsInSlice xs valid = ([], True)"
  by (induction xs) auto

lemma validate_offending:
  "\<not> set xs \<subseteq> set valid \<Longrightarrow>
     \<exists>v. validateAllSliceItemsInSlice xs valid = (v, False) \<and> v \<in> set xs \<and> v \<notin> set valid"
  by (induction xs) auto

lemma build_invalid_group:
  assumes "validateAllSliceItemsInSlice (tr_event_groups d) validEventGroups = (v, False)"
  shows "buildProjectDeploymentTargetTriggerResource d =
           Inl (invalidValueError ''event_groups'' v validEventGroups)"
proof -
  have "tr_event_groups d \<noteq> []" using assms by auto
  with assms show ?thesis
    by (simp add: buildProjectDeploymentTargetTriggerResource_def Let_def
          getSliceFromTerraformTypeList_def)
qed

lemma build_invalid_category:
  assumes "set (tr_event_groups d) \<subseteq> set validEventGroups"
    and "validateAllSliceItemsInSlice (tr_event_categories d) validEventCategories = (v, False)"
  shows "buildProjectDeploymentTargetTriggerResource d =
           Inl (invalidValueError ''event_categories'' v validEventCategories)"
proof -
  have "tr_event_categories d \<noteq> []" using assms(2) by auto
  with assms(2) validate_subset [OF assms(1)] show ?thesis
    by (simp add: buildProjectDeploymentTargetTriggerResource_def Let_def
          getSliceFromTerraformTypeList_def)
qed

lemma invalidValueError_names_value:
  "\<exists>pre post. invalidValueError field v valid = Errorf (pre @ v @ post)"
  unfolding invalidValueError_def by (metis append.assoc)

text \<open>
  C3. When \<open>event_groups\<close> or \<open>event_categories\<close> holds a value outside its
  enumeration, the builder returns an error whose message contains such a value, and
  Create and Update return that error as their diagnostic, with the resource data
  unchanged and without a call to the API.
\<close>

theorem invalid_event_value_rejected:
  assumes "\<not> set (tr_event_groups d) \<subseteq> set validEventGroups
         \<or> \<not> set (tr_event_categories d) \<subseteq> set validEventCategories"
  shows "\<exists>v pre post.
           (v \<in> set (tr_event_groups d) - set validEventGroups
            \<or> v \<in> set (tr_event_categories d) - set validEventCategories)
         \<and> buildProjectDeploymentTargetTriggerResource d = Inl (Errorf (pre @ v @ post))
         \<and> resourceProjectDeploymentTargetTriggerCreate isEmpty m d =
             (diag_FromErr (Errorf (pre @ v @ post)), d, [])
         \<and> resourceProjectDeploymentTargetTriggerUpdate m d =
             (diag_FromErr (Errorf (pre @ v @ post)), d, [])"
proof -
  have "\<exists>v field valid.
          (v \<in> set (tr_event_groups d) - set validEventGroups
           \<or> v \<in> set (tr_event_categories d) - set validEventCategories)
        \<and> buildProjectDeploymentTargetTriggerResource d =
            Inl (invalidValueError field v valid)"
  proof (cases "set (tr_event_groups d) \<subseteq> set validEventGroups")
    case False
    from validate_offending [OF False] build_invalid_group show ?thesis by blast
  next
    case True
    with assms have "\<not> set (tr_event_categories d) \<subseteq> set validEventCategories" by simp
    from validate_offending [OF this] build_invalid_category [OF True] show ?thesis
      by blast
  qed
  then obtain v field valid where
    v: "v \<in> set (tr_event_groups d) - set validEventGroups
        \<or> v \<in> set (tr_event_categories d) - set validEventCategories"
    and b: "buildProjectDeploymentTargetTriggerResource d =
              Inl (invalidValueError field v valid)"
    by blast
  obtain pre post where e: "invalidValueError field v valid = Errorf (pre @ v @ post)"
    using invalidValueError_names_value by blast
  have "resourceProjectDeploymentTargetTriggerCreate isEmpty m d =
          (diag_FromErr (Errorf (pre @ v @ post)), d, [])"
    by (simp add: resourceProjectDeploymentTargetTriggerCreate_def b e)
  moreover have "resourceProjectDeploymentTargetTriggerUpdate m d =
          (diag_FromErr (Errorf (pre @ v @ post)), d, [])"
    by (simp add: resourceProjectDeploymentTargetTriggerUpdate_def b e)
  ultimately show ?thesis using v b e by auto
qed

text \<open>The example of the spec: \<open>event_groups = ["Machine", "BadValue"]\<close>.\<close>

theorem invalid_event_value_rejected_witness:
  "''BadValue'' \<in> set (tr_event_groups bad_trigger) - set validEventGroups
   \<and> (\<exists>v pre post.
         (v \<in> set (tr_event_groups bad_trigger) - set validEventGroups
          \<or> v \<in> set (tr_event_categories bad_trigger) - set validEventCategories)
       \<and> buildProjectDeploymentTargetTriggerResource bad_trigger = Inl (Errorf (pre @ v @ post))
       \<and> resourceProjectDeploymentTargetTriggerCreate (\<lambda>s. s = [])
            (stub_trigger_client (Inr None) None) bad_trigger =
           (diag_FromErr (Errorf (pre @ v @ post)), bad_trigger, [])
       \<and> resourceProjectDeploymentTargetTriggerUpdate
            (stub_trigger_client (Inr None) None) bad_trigger =
           (diag_FromErr (Errorf (pre @ v @ post)), bad_trigger, []))
   \<and> buildProjectDeploymentTargetTriggerResource bad_trigger =
       Inl (Errorf ''Invalid value for event_groups. BadValue not in [Machine MachineCritical MachineAvailableForDeployment MachineUnavailableForDeployment MachineHealthChanged]'')"
proof -
  have h: "\<not> set (tr_event_groups bad_trigger) \<subseteq> set validEventGroups
         \<or> \<not> set (tr_event_categories bad_trigger) \<subseteq> set validEventCategories"
    by (simp add: bad_trigger_def validEventGroups_def)
  have ex: "buildProjectDeploymentTargetTriggerResource bad_trigger =
       Inl (Errorf ''Invalid value for event_groups. BadValue not in [Machine MachineCritical MachineAvailableForDeployment MachineUnavailableForDeployment MachineHealthChanged]'')"
    by (simp add: buildProjectDeploymentTargetTriggerResource_def bad_trigger_def
          validEventGroups_def getSliceFromTerraformTypeList_def invalidValueError_def
          fmt_v_def Let_def)
  have bad: "''BadValue'' \<in> set (tr_event_groups bad_trigger) - set validEventGroups"
    by (simp add: bad_trigger_def validEventGroups_def)
  show ?thesis
    using bad ex invalid_event_value_rejected
            [OF h, of "\<lambda>s. s = []" "stub_trigger_client (Inr None) None"]
    by blast
qed

text \<open>
  C9. A Read of the trigger \<open>ProjectTriggers-1\<close> that the server no longer has: the
  client reports the not-found as an error, the handler returns it as its diagnostic
  before it tests the entity for \<open>nil\<close>, and the identifier stays.
\<close>

theorem trigger_Read_not_found_fails:
  "resourceProjectDeploymentTargetTriggerRead
       (stub_trigger_client (Inl not_found) None) good_trigger =
     ([\<lparr>Severity = Error, Summary = ''the resource was not found''\<rparr>], good_trigger,
      [Call_ProjectTriggers_GetByID ''ProjectTriggers-1''])
   \<and> tr_Id good_trigger = ''ProjectTriggers-1''"
  by (simp add: resourceProjectDeploymentTargetTriggerRead_def stub_trigger_client_def
        good_trigger_def bad_trigger_def not_found_def diag_FromErr_def)

section \<open>Properties of the lifecycle handlers\<close>

lemma phases_fold:
  "Phases (foldl (\<lambda>l tfPhase. l\<lparr>Phases := Phases l @ [buildPhaseResource tfPhase]\<rparr>) l ps)
     = Phases l @ map buildPhaseResource ps"
  by (induction ps arbitrary: l) auto

lemma flattenPhase_accepted:
  "Set_phase d (flattenPhase p) =
     (if phase_ReleaseRetentionPolicy p = None \<and> phase_TentacleRetentionPolicy p = None
      then d\<lparr>lc_phase := flattenPhase p\<rparr> else d)"
  by (auto simp: Set_phase_def flattenPhase_def acceptedRetention_def split: option.splits)

lemma flatten_fold:
  "lc_phase (foldl (\<lambda>d' phase. Set_phase d' (flattenPhase phase)) d ps) =
     (case rev (filter (\<lambda>p. phase_ReleaseRetentionPolicy p = None
                          \<and> phase_TentacleRetentionPolicy p = None) ps) of
        [] \<Rightarrow> lc_phase d
      | p # _ \<Rightarrow> flattenPhase p)"
proof (induction ps rule: rev_induct)
  case Nil
  show ?case by simp
next
  case (snoc q qs)
  then show ?case
    by (simp add: flattenPhase_accepted)
qed

text \<open>
  After \<open>flattenLifecycle\<close> the state holds at most the last phase the runtime
  accepted, whatever the number of phases of the entity.
\<close>

lemma flattenLifecycle_phase:
  "lc_phase (flattenLifecycle d l) =
     (case rev (filter (\<lambda>p. phase_ReleaseRetentionPolicy p = None
                          \<and> phase_TentacleRetentionPolicy p = None) (Phases l)) of
        [] \<Rightarrow> lc_phase d
      | p # _ \<Rightarrow> flattenPhase p)"
  by (simp add: flattenLifecycle_def Let_def flatten_fold split: list.splits)

text \<open>
  C10. Delete of a trigger and Delete of a lifecycle: when \<open>DeleteByID\<close> answers an
  error, the handler returns it as its diagnostic and the resource data, the identifier
  included, are unchanged; when \<open>DeleteByID\<close> succeeds, the identifier is cleared and
  no diagnostic is returned.
\<close>

theorem Delete_atomic:
  "(ProjectTriggers_DeleteByID tm (tr_Id td) = Some err \<longrightarrow>
      resourceProjectDeploymentTargetTriggerDelete tm td =
        (diag_FromErr err, td, [Call_ProjectTriggers_DeleteByID (tr_Id td)]))
   \<and> (ProjectTriggers_DeleteByID tm (tr_Id td) = None \<longrightarrow>
        resourceProjectDeploymentTargetTriggerDelete tm td =
          ([], td\<lparr>tr_Id := []\<rparr>, [Call_ProjectTriggers_DeleteByID (tr_Id td)]))
   \<and> (Lifecycles_DeleteByID lm (lc_Id ld) = Some err \<longrightarrow>
        resourceLifecycleDelete lm ld =
          (diag_FromErr err, ld, [Call_Lifecycles_DeleteByID (lc_Id ld)]))
   \<and> (Lifecycles_DeleteByID lm (lc_Id ld) = None \<longrightarrow>
        resourceLifecycleDelete lm ld =
          ([], ld\<lparr>lc_Id := []\<rparr>, [Call_Lifecycles_DeleteByID (lc_Id ld)]))"
  by (simp add: resourceProjectDeploymentTargetTriggerDelete_def resourceLifecycleDelete_def
        Let_def)

theorem Delete_atomic_witness:
  "(ProjectTriggers_DeleteByID (stub_trigger_client (Inr None) (Some not_found))
        (tr_Id good_trigger) = Some not_found
    \<and> resourceProjectDeploymentTargetTriggerDelete
         (stub_trigger_client (Inr None) (Some not_found)) good_trigger =
        (diag_FromErr not_found, good_trigger,
         [Call_ProjectTriggers_DeleteByID (tr_Id good_trigger)]))
   \<and> (ProjectTriggers_DeleteByID (stub_trigger_client (Inr None) None)
         (tr_Id good_trigger) = None
      \<and> resourceProjectDeploymentTargetTriggerDelete
           (stub_trigger_client (Inr None) None) good_trigger =
          ([], good_trigger\<lparr>tr_Id := []\<rparr>,
           [Call_ProjectTriggers_DeleteByID (tr_Id good_trigger)]))
   \<and> (Lifecycles_DeleteByID (stub_lifecycle_client (Inl not_found) (Some not_found))
         (lc_Id stored_data) = Some not_found
      \<and> resourceLifecycleDelete (stub_lifecycle_client (Inl not_found) (Some not_found))
           stored_data =
          (diag_FromErr not_found, stored_data, [Call_Lifecycles_DeleteByID (lc_Id stored_data)]))
   \<and> (Lifecycles_DeleteByID (stub_lifecycle_client (Inl not_found) None)
         (lc_Id stored_data) = None
      \<and> resourceLifecycleDelete (stub_lifecycle_client (Inl not_found) None) stored_data =
          ([], stored_data\<lparr>lc_Id := []\<rparr>, [Call_Lifecycles_DeleteByID (lc_Id stored_data)]))"
proof -
  have a: "ProjectTriggers_DeleteByID (stub_trigger_client (Inr None) (Some not_found))
        (tr_Id good_trigger) = Some not_found"
    and b: "ProjectTriggers_DeleteByID (stub_trigger_client (Inr None) None)
         (tr_Id good_trigger) = None"
    by (simp_all add: stub_trigger_client_def)
  have c: "Lifecycles_DeleteByID (stub_lifecycle_client (Inl not_found) (Some not_found))
         (lc_Id stored_data) = Some not_found"
    and d: "Lifecycles_DeleteByID (stub_lifecycle_client (Inl not_found) None)
         (lc_Id stored_data) = None"
    by (simp_all add: stub_lifecycle_client_def)
  show ?thesis
    using a b c d
      Delete_atomic [of "stub_trigger_client (Inr None) (Some not_found)" good_trigger not_found
                        "stub_lifecycle_client (Inl not_found) (Some not_found)" stored_data]
      Delete_atomic [of "stub_trigger_client (Inr None) None" good_trigger not_found
                        "stub_lifecycle_client (Inl not_found) None" stored_data]
    by simp
qed

text \<open>
  C8. A release retention block with \<open>should_keep_forever = true\<close>: the retention
  period that \<open>getRetentionPeriod\<close> builds, and that \<open>buildLifecycleResource\<close>
  puts into the payload, has the unit and the quantity of the block and
  \<open>ShouldKeepForever = false\<close>.
\<close>

theorem getRetentionPeriod_drops_keep_forever:
  "rb_should_keep_forever keep_forever
   \<and> getRetentionPeriod [keep_forever] =
       Some \<lparr>QuantityToKeep = 0, ShouldKeepForever = False, Unit = ''Days''\<rparr>
   \<and> lc_release_retention_policy two_phase_lifecycle = [keep_forever]
   \<and> ReleaseRetentionPolicy (buildLifecycleResource two_phase_lifecycle) =
       \<lparr>QuantityToKeep = 0, ShouldKeepForever = False, Unit = ''Days''\<rparr>"
  by (simp add: getRetentionPeriod_def keep_forever_def buildLifecycleResource_def
        two_phase_lifecycle_def NewLifecycle_def Let_def)

text \<open>
  C7. A configuration with the two phases \<open>Dev\<close> and \<open>Prod\<close>: the payload holds
  both phases in order and the server stores them; Create succeeds and leaves the single
  phase \<open>Prod\<close> in the state, and so does the Read that follows.
\<close>

theorem Create_Read_keeps_last_phase_only:
  "map pb_name (lc_phase two_phase_lifecycle) = [''Dev'', ''Prod'']
   \<and> map phase_Name (Phases stored_lifecycle) = [''Dev'', ''Prod'']
   \<and> Lifecycles_Add (stub_lifecycle_client (Inr stored_lifecycle) None)
        (buildLifecycleResource two_phase_lifecycle) = Inr stored_lifecycle
   \<and> fst (resourceLifecycleCreate (stub_lifecycle_client (Inr stored_lifecycle) None)
             two_phase_lifecycle) = []
   \<and> map pb_name (lc_phase (fst (snd
        (resourceLifecycleCreate (stub_lifecycle_client (Inr stored_lifecycle) None)
           two_phase_lifecycle)))) = [''Prod'']
   \<and> fst (resourceLifecycleRead (stub_lifecycle_client (Inr stored_lifecycle) None)
        (fst (snd (resourceLifecycleCreate (stub_lifecycle_client (Inr stored_lifecycle) None)
           two_phase_lifecycle)))) = []
   \<and> map pb_name (lc_phase (fst (snd
        (resourceLifecycleRead (stub_lifecycle_client (Inr stored_lifecycle) None)
          (fst (snd (resourceLifecycleCreate (stub_lifecycle_client (Inr stored_lifecycle) None)
             two_phase_lifecycle))))))) = [''Prod'']"
  by (simp add: resourceLifecycleCreate_def resourceLifecycleRead_def
        stub_lifecycle_client_def stored_lifecycle_def flattenLifecycle_phase
        buildLifecycleResource_def two_phase_lifecycle_def phases_fold flattenPhase_def
        buildPhaseResource_def dev_phase_def prod_phase_def NewLifecycle_def
        getRetentionPeriod_def Let_def)

end
